theory Spec2Isabelle
  imports Main "HOL-Library.AList"
begin

section \<open>The activity signup service (src/app.py)\<close>

text \<open>
  The service keeps two tables in a relational store and answers three requests:
  listing the activities, signing a student up, and unregistering a student.
  A handler opens one storage session, reads, checks, writes and commits. The model
  passes the store explicitly: a handler takes the store and returns its answer together
  with the store it leaves behind. An \<open>HTTPException\<close> raised by a handler is the
  \<open>Inl\<close> branch of the answer; nothing has been added to the session at any point where
  the source raises, so the store that comes back with an exception is the one that went in.
\<close>

subsection \<open>Rows and tables\<close>

text \<open>
  Modelled from the spec: the row classes \<open>Activity\<close> and \<open>Participant\<close> live in
  \<open>models.py\<close>, which app.py imports and which is not among the sources. The fields
  are those of the spec's data model, and they are the fields app.py reads and writes.
  The primary key \<open>id\<close> of the two classes is \<open>a_id\<close> and \<open>p_id\<close> here, since one
  theory cannot hold two records with the same field. Python integers are \<open>int\<close>.
\<close>

record activity =
  a_id :: int
  name :: string
  description :: string
  schedule :: string
  max_participants :: int

record participant =
  p_id :: int
  email :: string
  activity_id :: int

text \<open>
  A table is the list of its rows in the order a full scan returns them, which is the
  order of insertion: the store hands out increasing keys, so this is also key order.
\<close>

record db =
  activity_table :: "activity list"
  participant_table :: "participant list"

definition empty_db :: db where
  "empty_db = \<lparr>activity_table = [], participant_table = []\<rparr>"

text \<open>
  The key of a freshly inserted row, assigned by the store when the session is flushed:
  one more than the largest key of the table, and 1 in an empty table.
\<close>

definition new_id :: "int list \<Rightarrow> int" where
  "new_id ids = (case ids of [] \<Rightarrow> 1 | x # xs \<Rightarrow> fold max xs x + 1)"

text \<open>\<open>session.add(Activity(...)); session.commit(); session.refresh(activity)\<close>:
  the row is stored and its key is read back.\<close>

definition add_activity :: "string \<Rightarrow> string \<Rightarrow> string \<Rightarrow> int \<Rightarrow> db \<Rightarrow> int \<times> db" where
  "add_activity nm desc sched max_p s =
     (let i = new_id (map a_id (activity_table s))
      in (i, s\<lparr>activity_table := activity_table s @
                 [\<lparr>a_id = i, name = nm, description = desc, schedule = sched,
                   max_participants = max_p\<rparr>]\<rparr>))"

text \<open>\<open>session.add(Participant(email=..., activity_id=...))\<close>, committed.\<close>

definition add_participant :: "string \<Rightarrow> int \<Rightarrow> db \<Rightarrow> db" where
  "add_participant em aid s =
     s\<lparr>participant_table := participant_table s @
          [\<lparr>p_id = new_id (map p_id (participant_table s)), email = em, activity_id = aid\<rparr>]\<rparr>"

text \<open>\<open>session.delete(participant)\<close>, committed: the row with that primary key goes.\<close>

definition delete_participant :: "participant \<Rightarrow> db \<Rightarrow> db" where
  "delete_participant p s =
     s\<lparr>participant_table := filter (\<lambda>q. p_id q \<noteq> p_id p) (participant_table s)\<rparr>"

text \<open>\<open>select(Participant).where(Participant.activity_id == i)\<close>, all rows.\<close>

definition participants_of :: "int \<Rightarrow> db \<Rightarrow> participant list" where
  "participants_of i s = filter (\<lambda>p. activity_id p = i) (participant_table s)"

text \<open>\<open>select(Activity).where(Activity.name == activity_name)\<close>, first row or none.\<close>

definition activity_named :: "string \<Rightarrow> db \<Rightarrow> activity option" where
  "activity_named activity_name s = find (\<lambda>a. name a = activity_name) (activity_table s)"

subsection \<open>Seeding\<close>

type_synonym sample = "string \<times> string \<times> string \<times> int \<times> string list"

definition samples :: "sample list" where
  "samples =
    [(''Chess Club'', ''Learn strategies and compete in chess tournaments'',
      ''Fridays, 3:30 PM - 5:00 PM'', 12,
      [''michael@mergington.edu'', ''daniel@mergington.edu'']),
     (''Programming Class'', ''Learn programming fundamentals and build software projects'',
      ''Tuesdays and Thursdays, 3:30 PM - 4:30 PM'', 20,
      [''emma@mergington.edu'', ''sophia@mergington.edu'']),
     (''Gym Class'', ''Physical education and sports activities'',
      ''Mondays, Wednesdays, Fridays, 2:00 PM - 3:00 PM'', 30,
      [''john@mergington.edu'', ''olivia@mergington.edu'']),
     (''Soccer Team'', ''Join the school soccer team and compete in matches'',
      ''Tuesdays and Thursdays, 4:00 PM - 5:30 PM'', 22,
      [''liam@mergington.edu'', ''noah@mergington.edu'']),
     (''Basketball Team'', ''Practice and play basketball with the school team'',
      ''Wednesdays and Fridays, 3:30 PM - 5:00 PM'', 15,
      [''ava@mergington.edu'', ''mia@mergington.edu'']),
     (''Art Club'', ''Explore your creativity through painting and drawing'',
      ''Thursdays, 3:30 PM - 5:00 PM'', 15,
      [''amelia@mergington.edu'', ''harper@mergington.edu'']),
     (''Drama Club'', ''Act, direct, and produce plays and performances'',
      ''Mondays and Wednesdays, 4:00 PM - 5:30 PM'', 20,
      [''ella@mergington.edu'', ''scarlett@mergington.edu'']),
     (''Math Club'', ''Solve challenging problems and participate in math competitions'',
      ''Tuesdays, 3:30 PM - 4:30 PM'', 10,
      [''james@mergington.edu'', ''benjamin@mergington.edu'']),
     (''Debate Team'', ''Develop public speaking and argumentation skills'',
      ''Fridays, 4:00 PM - 5:30 PM'', 12,
      [''charlotte@mergington.edu'', ''henry@mergington.edu''])]"

text \<open>The body of the loop over \<open>samples\<close>: one activity, then its participants.\<close>

definition seed_sample :: "sample \<Rightarrow> db \<Rightarrow> db" where
  "seed_sample smp s =
     (case smp of (nm, desc, sched, max_p, participants) \<Rightarrow>
        (case add_activity nm desc sched max_p s of (i, s1) \<Rightarrow>
           fold (\<lambda>em. add_participant em i) participants s1))"

definition seed_data :: "db \<Rightarrow> db" where
  "seed_data s = (if activity_table s \<noteq> [] then s else fold seed_sample samples s)"

text \<open>The store after the first start of the process: tables created, then seeded.\<close>

definition initial_db :: db where
  "initial_db = seed_data empty_db"

subsection \<open>The handlers\<close>

datatype http_exception = HTTPException (status_code: nat) (detail: string)

datatype response = Message string

record activity_info =
  info_description :: string
  info_schedule :: string
  info_max_participants :: int
  info_participants :: "string list"

text \<open>
  \<open>get_activities\<close> builds a Python dict keyed by activity name. A dict keeps its keys
  in the order of first insertion and an assignment to a key already there replaces the
  value in place, which is what \<open>AList.update\<close> does on an association list.
\<close>

definition info_of :: "db \<Rightarrow> activity \<Rightarrow> activity_info" where
  "info_of s act =
     \<lparr>info_description = description act, info_schedule = schedule act,
      info_max_participants = max_participants act,
      info_participants = map email (participants_of (a_id act) s)\<rparr>"

definition get_activities :: "db \<Rightarrow> (string \<times> activity_info) list" where
  "get_activities s =
     fold (\<lambda>act result. AList.update (name act) (info_of s act) result) (activity_table s) []"

definition signup_for_activity :: "string \<Rightarrow> string \<Rightarrow> db \<Rightarrow> (http_exception + response) \<times> db" where
  "signup_for_activity activity_name em s =
     (case activity_named activity_name s of
        None \<Rightarrow> (Inl (HTTPException 404 ''Activity not found''), s)
      | Some act \<Rightarrow>
          let participants = participants_of (a_id act) s in
          if list_ex (\<lambda>p. email p = em) participants
          then (Inl (HTTPException 400 ''Student is already signed up''), s)
          else if int (length participants) \<ge> max_participants act
          then (Inl (HTTPException 400 ''Activity is full''), s)
          else (Inr (Message (''Signed up '' @ em @ '' for '' @ activity_name)),
                add_participant em (a_id act) s))"

definition unregister_from_activity :: "string \<Rightarrow> string \<Rightarrow> db \<Rightarrow> (http_exception + response) \<times> db" where
  "unregister_from_activity activity_name em s =
     (case activity_named activity_name s of
        None \<Rightarrow> (Inl (HTTPException 404 ''Activity not found''), s)
      | Some act \<Rightarrow>
          (case find (\<lambda>p. activity_id p = a_id act \<and> email p = em) (participant_table s) of
             None \<Rightarrow> (Inl (HTTPException 400 ''Student is not signed up for this activity''), s)
           | Some p \<Rightarrow>
               (Inr (Message (''Unregistered '' @ em @ '' from '' @ activity_name)),
                delete_participant p s)))"

subsection \<open>Requests and runs\<close>

text \<open>
  A request names a handler and its arguments. A run is a sequence of requests served one
  after the other, each on the store the one before left behind; listing changes nothing.
\<close>

datatype request = List_activities | Signup string string | Unregister string string

fun handle :: "request \<Rightarrow> db \<Rightarrow> db" where
  "handle List_activities s = s"
| "handle (Signup n e) s = snd (signup_for_activity n e s)"
| "handle (Unregister n e) s = snd (unregister_from_activity n e s)"

definition run :: "request list \<Rightarrow> db \<Rightarrow> db" where
  "run rs s = fold handle rs s"

text \<open>The two errors of the service, read off an answer.\<close>

definition is_not_found :: "http_exception + response \<Rightarrow> bool" where
  "is_not_found r = (case r of Inl x \<Rightarrow> status_code x = 404 | Inr _ \<Rightarrow> False)"

definition is_conflict :: "http_exception + response \<Rightarrow> bool" where
  "is_conflict r = (case r of Inl x \<Rightarrow> status_code x = 400 | Inr _ \<Rightarrow> False)"

subsection \<open>Constraints of the data model\<close>

text \<open>
  What the data model says of every store: the primary keys of a table are distinct, no two
  activities share a name, and a participant refers to an activity that is there.
\<close>

definition references_ok :: "db \<Rightarrow> bool" where
  "references_ok s =
     list_all (\<lambda>p. activity_id p \<in> set (map a_id (activity_table s))) (participant_table s)"

definition well_formed :: "db \<Rightarrow> bool" where
  "well_formed s \<longleftrightarrow>
     distinct (map a_id (activity_table s)) \<and> distinct (map name (activity_table s)) \<and>
     distinct (map p_id (participant_table s)) \<and> references_ok s"

subsection \<open>The seeded store, written out\<close>

text \<open>
  The rows and the listing that seeding an empty store yields, with the keys the store
  assigns: activities 1 to 9 in the order of \<open>samples\<close>, participants 1 to 18.
\<close>

definition seeded_activities :: "activity list" where
  "seeded_activities =
    [\<lparr>a_id = 1, name = ''Chess Club'',
      description = ''Learn strategies and compete in chess tournaments'',
      schedule = ''Fridays, 3:30 PM - 5:00 PM'', max_participants = 12\<rparr>,
     \<lparr>a_id = 2, name = ''Programming Class'',
      description = ''Learn programming fundamentals and build software projects'',
      schedule = ''Tuesdays and Thursdays, 3:30 PM - 4:30 PM'', max_participants = 20\<rparr>,
     \<lparr>a_id = 3, name = ''Gym Class'',
      description = ''Physical education and sports activities'',
      schedule = ''Mondays, Wednesdays, Fridays, 2:00 PM - 3:00 PM'', max_participants = 30\<rparr>,
     \<lparr>a_id = 4, name = ''Soccer Team'',
      description = ''Join the school soccer team and compete in matches'',
      schedule = ''Tuesdays and Thursdays, 4:00 PM - 5:30 PM'', max_participants = 22\<rparr>,
     \<lparr>a_id = 5, name = ''Basketball Team'',
      description = ''Practice and play basketball with the school team'',
      schedule = ''Wednesdays and Fridays, 3:30 PM - 5:00 PM'', max_participants = 15\<rparr>,
     \<lparr>a_id = 6, name = ''Art Club'',
      description = ''Explore your creativity through painting and drawing'',
      schedule = ''Thursdays, 3:30 PM - 5:00 PM'', max_participants = 15\<rparr>,
     \<lparr>a_id = 7, name = ''Drama Club'',
      description = ''Act, direct, and produce plays and performances'',
      schedule = ''Mondays and Wednesdays, 4:00 PM - 5:30 PM'', max_participants = 20\<rparr>,
     \<lparr>a_id = 8, name = ''Math Club'',
      description = ''Solve challenging problems and participate in math competitions'',
      schedule = ''Tuesdays, 3:30 PM - 4:30 PM'', max_participants = 10\<rparr>,
     \<lparr>a_id = 9, name = ''Debate Team'',
      description = ''Develop public speaking and argumentation skills'',
      schedule = ''Fridays, 4:00 PM - 5:30 PM'', max_participants = 12\<rparr>]"

definition seeded_participants :: "participant list" where
  "seeded_participants =
    [\<lparr>p_id = 1, email = ''michael@mergington.edu'', activity_id = 1\<rparr>,
     \<lparr>p_id = 2, email = ''daniel@mergington.edu'', activity_id = 1\<rparr>,
     \<lparr>p_id = 3, email = ''emma@mergington.edu'', activity_id = 2\<rparr>,
     \<lparr>p_id = 4, email = ''sophia@mergington.edu'', activity_id = 2\<rparr>,
     \<lparr>p_id = 5, email = ''john@mergington.edu'', activity_id = 3\<rparr>,
     \<lparr>p_id = 6, email = ''olivia@mergington.edu'', activity_id = 3\<rparr>,
     \<lparr>p_id = 7, email = ''liam@mergington.edu'', activity_id = 4\<rparr>,
     \<lparr>p_id = 8, email = ''noah@mergington.edu'', activity_id = 4\<rparr>,
     \<lparr>p_id = 9, email = ''ava@mergington.edu'', activity_id = 5\<rparr>,
     \<lparr>p_id = 10, email = ''mia@mergington.edu'', activity_id = 5\<rparr>,
     \<lparr>p_id = 11, email = ''amelia@mergington.edu'', activity_id = 6\<rparr>,
     \<lparr>p_id = 12, email = ''harper@mergington.edu'', activity_id = 6\<rparr>,
     \<lparr>p_id = 13, email = ''ella@mergington.edu'', activity_id = 7\<rparr>,
     \<lparr>p_id = 14, email = ''scarlett@mergington.edu'', activity_id = 7\<rparr>,
     \<lparr>p_id = 15, email = ''james@mergington.edu'', activity_id = 8\<rparr>,
     \<lparr>p_id = 16, email = ''benjamin@mergington.edu'', activity_id = 8\<rparr>,
     \<lparr>p_id = 17, email = ''charlotte@mergington.edu'', activity_id = 9\<rparr>,
     \<lparr>p_id = 18, email = ''henry@mergington.edu'', activity_id = 9\<rparr>]"

definition seeded_listing :: "(string \<times> activity_info) list" where
  "seeded_listing =
    [(''Chess Club'',
      \<lparr>info_description = ''Learn strategies and compete in chess tournaments'',
       info_schedule = ''Fridays, 3:30 PM - 5:00 PM'', info_max_participants = 12,
       info_participants = [''michael@mergington.edu'', ''daniel@mergington.edu'']\<rparr>),
     (''Programming Class'',
      \<lparr>info_description = ''Learn programming fundamentals and build software projects'',
       info_schedule = ''Tuesdays and Thursdays, 3:30 PM - 4:30 PM'', info_max_participants = 20,
       info_participants = [''emma@mergington.edu'', ''sophia@mergington.edu'']\<rparr>),
     (''Gym Class'',
      \<lparr>info_description = ''Physical education and sports activities'',
       info_schedule = ''Mondays, Wednesdays, Fridays, 2:00 PM - 3:00 PM'', info_max_participants = 30,
       info_participants = [''john@mergington.edu'', ''olivia@mergington.edu'']\<rparr>),
     (''Soccer Team'',
      \<lparr>info_description = ''Join the school soccer team and compete in matches'',
       info_schedule = ''Tuesdays and Thursdays, 4:00 PM - 5:30 PM'', info_max_participants = 22,
       info_participants = [''liam@mergington.edu'', ''noah@mergington.edu'']\<rparr>),
     (''Basketball Team'',
      \<lparr>info_description = ''Practice and play basketball with the school team'',
       info_schedule = ''Wednesdays and Fridays, 3:30 PM - 5:00 PM'', info_max_participants = 15,
       info_participants = [''ava@mergington.edu'', ''mia@mergington.edu'']\<rparr>),
     (''Art Club'',
      \<lparr>info_description = ''Explore your creativity through painting and drawing'',
       info_schedule = ''Thursdays, 3:30 PM - 5:00 PM'', info_max_participants = 15,
       info_participants = [''amelia@mergington.edu'', ''harper@mergington.edu'']\<rparr>),
     (''Drama Club'',
      \<lparr>info_description = ''Act, direct, and produce plays and performances'',
       info_schedule = ''Mondays and Wednesdays, 4:00 PM - 5:30 PM'', info_max_participants = 20,
       info_participants = [''ella@mergington.edu'', ''scarlett@mergington.edu'']\<rparr>),
     (''Math Club'',
      \<lparr>info_description = ''Solve challenging problems and participate in math competitions'',
       info_schedule = ''Tuesdays, 3:30 PM - 4:30 PM'', info_max_participants = 10,
       info_participants = [''james@mergington.edu'', ''benjamin@mergington.edu'']\<rparr>),
     (''Debate Team'',
      \<lparr>info_description = ''Develop public speaking and argumentation skills'',
       info_schedule = ''Fridays, 4:00 PM - 5:30 PM'', info_max_participants = 12,
       info_participants = [''charlotte@mergington.edu'', ''henry@mergington.edu'']\<rparr>)]"

definition chess_club :: activity where
  "chess_club = \<lparr>a_id = 1, name = ''Chess Club'',
      description = ''Learn strategies and compete in chess tournaments'',
      schedule = ''Fridays, 3:30 PM - 5:00 PM'', max_participants = 12\<rparr>"

definition math_club :: activity where
  "math_club = \<lparr>a_id = 8, name = ''Math Club'',
      description = ''Solve challenging problems and participate in math competitions'',
      schedule = ''Tuesdays, 3:30 PM - 4:30 PM'', max_participants = 10\<rparr>"

text \<open>A run that fills the Math Club: eight signups on top of the two seeded rows.\<close>

definition math_club_full :: db where
  "math_club_full =
     run [Signup ''Math Club'' ''s1@mergington.edu'', Signup ''Math Club'' ''s2@mergington.edu'',
          Signup ''Math Club'' ''s3@mergington.edu'', Signup ''Math Club'' ''s4@mergington.edu'',
          Signup ''Math Club'' ''s5@mergington.edu'', Signup ''Math Club'' ''s6@mergington.edu'',
          Signup ''Math Club'' ''s7@mergington.edu'', Signup ''Math Club'' ''s8@mergington.edu'']
       initial_db"

section \<open>Auxiliary facts\<close>

subsection \<open>The store and its keys\<close>

lemma fold_max_upper: "y \<in> set (x # xs) \<Longrightarrow> y \<le> fold max xs (x::int)"
  using Max_ge [of "set (x # xs)" y] by (simp only: Max.set_eq_fold List.finite_set)

lemma new_id_greater: "y \<in> set ids \<Longrightarrow> y < new_id ids"
  using fold_max_upper by (cases ids) (fastforce simp: new_id_def)+

lemma new_id_fresh: "new_id ids \<notin> set ids"
  using new_id_greater by blast

lemma seed_empty:
  "seed_data empty_db =
     \<lparr>activity_table = seeded_activities, participant_table = seeded_participants\<rparr>"
  by (simp add: seed_data_def empty_db_def samples_def seed_sample_def add_activity_def
      add_participant_def new_id_def seeded_activities_def seeded_participants_def)

lemma initial_db_eq:
  "initial_db = \<lparr>activity_table = seeded_activities, participant_table = seeded_participants\<rparr>"
  by (simp add: initial_db_def seed_empty)

text \<open>The lookup by name finds a row exactly when some row has the name, and with
  distinct names it finds the one row that has it.\<close>

lemma activity_named_None_iff:
  "activity_named n s = None \<longleftrightarrow> n \<notin> name ` set (activity_table s)"
  by (auto simp: activity_named_def find_None_iff)

lemma activity_named_SomeD:
  "activity_named n s = Some a \<Longrightarrow> a \<in> set (activity_table s) \<and> name a = n"
  by (auto simp: activity_named_def find_Some_iff)

lemma find_distinct_key:
  "distinct (map f xs) \<Longrightarrow> x \<in> set xs \<Longrightarrow> find (\<lambda>y. f y = f x) xs = Some x"
  by (induction xs) (auto simp: image_iff)

lemma activity_named_unique:
  "distinct (map name (activity_table s)) \<Longrightarrow> a \<in> set (activity_table s) \<Longrightarrow>
   activity_named (name a) s = Some a"
  by (simp add: activity_named_def find_distinct_key)

lemma activity_table_add_participant [simp]:
  "activity_table (add_participant e i s) = activity_table s"
  by (simp add: add_participant_def)

lemma activity_named_add_participant [simp]:
  "activity_named n (add_participant e i s) = activity_named n s"
  by (simp add: activity_named_def)

lemma participants_of_add_participant:
  "participants_of j (add_participant e i s) =
     (if j = i
      then participants_of j s @ [\<lparr>p_id = new_id (map p_id (participant_table s)), email = e, activity_id = i\<rparr>]
      else participants_of j s)"
  by (simp add: participants_of_def add_participant_def)

lemma activity_table_delete_participant [simp]:
  "activity_table (delete_participant p s) = activity_table s"
  by (simp add: delete_participant_def)

lemma find_filter_hd:
  "find P xs = (case filter P xs of [] \<Rightarrow> None | x # _ \<Rightarrow> Some x)"
  by (induction xs) auto

lemma filter_key_remove1:
  "distinct (map f xs) \<Longrightarrow> x \<in> set xs \<Longrightarrow> filter (\<lambda>y. f y \<noteq> f x) xs = remove1 x xs"
proof (induction xs)
  case Nil
  then show ?case by simp
next
  case (Cons y ys)
  show ?case
  proof (cases "y = x")
    case True
    with Cons.prems have "\<forall>z\<in>set ys. f z \<noteq> f x" by (auto simp: image_iff)
    with True show ?thesis by simp
  next
    case False
    with Cons show ?thesis by (auto simp: image_iff)
  qed
qed

subsection \<open>The handlers, branch by branch\<close>

lemma signup_cases:
  assumes "activity_named n s = Some a"
  shows "signup_for_activity n e s =
     (if e \<in> email ` set (participants_of (a_id a) s)
      then (Inl (HTTPException 400 ''Student is already signed up''), s)
      else if max_participants a \<le> int (length (participants_of (a_id a) s))
      then (Inl (HTTPException 400 ''Activity is full''), s)
      else (Inr (Message (''Signed up '' @ e @ '' for '' @ n)), add_participant e (a_id a) s))"
  using assms by (auto simp: signup_for_activity_def Let_def list_ex_iff)

lemma unregister_cases:
  assumes "activity_named n s = Some a"
  shows "unregister_from_activity n e s =
     (case filter (\<lambda>p. activity_id p = a_id a \<and> email p = e) (participant_table s) of
        [] \<Rightarrow> (Inl (HTTPException 400 ''Student is not signed up for this activity''), s)
      | p # _ \<Rightarrow> (Inr (Message (''Unregistered '' @ e @ '' from '' @ n)), delete_participant p s))"
  using assms by (simp add: unregister_from_activity_def find_filter_hd split: list.splits)

lemma signup_activity_table [simp]:
  "activity_table (snd (signup_for_activity n e s)) = activity_table s"
proof (cases "activity_named n s")
  case None
  then show ?thesis by (simp add: signup_for_activity_def)
next
  case (Some a)
  then show ?thesis by (simp add: signup_cases)
qed

lemma unregister_activity_table [simp]:
  "activity_table (snd (unregister_from_activity n e s)) = activity_table s"
proof (cases "activity_named n s")
  case None
  then show ?thesis by (simp add: unregister_from_activity_def)
next
  case (Some a)
  then show ?thesis by (simp add: unregister_cases split: list.splits)
qed

lemma handle_activity_table [simp]: "activity_table (handle r s) = activity_table s"
  by (cases r) simp_all

section \<open>Errors\<close>

text \<open>
  Throughout, "the activity named \<open>n\<close> exists" is \<open>activity_named n s = Some a\<close>:
  the lookup of the handlers returns a row, and \<open>a\<close> is the row they go on with. Its
  participants are the rows \<open>participants_of (a_id a) s\<close>.
\<close>

text \<open>
  Claim C6. When no activity has the name \<open>n\<close>, signing up and unregistering both fail
  with status 404, whatever the email, and the store is left as it was.
\<close>

theorem unknown_activity_not_found:
  assumes "n \<notin> name ` set (activity_table s)"
  shows "signup_for_activity n e s = (Inl (HTTPException 404 ''Activity not found''), s) \<and>
         unregister_from_activity n e s = (Inl (HTTPException 404 ''Activity not found''), s) \<and>
         is_not_found (fst (signup_for_activity n e s)) \<and>
         is_not_found (fst (unregister_from_activity n e s))"
  using assms
  by (simp add: signup_for_activity_def unregister_from_activity_def
      activity_named_None_iff [symmetric] is_not_found_def)

theorem unknown_activity_not_found_witness:
  "''Knitting'' \<notin> name ` set (activity_table initial_db) \<and>
   signup_for_activity ''Knitting'' ''emma@mergington.edu'' initial_db =
     (Inl (HTTPException 404 ''Activity not found''), initial_db) \<and>
   unregister_from_activity ''Knitting'' ''emma@mergington.edu'' initial_db =
     (Inl (HTTPException 404 ''Activity not found''), initial_db)"
proof -
  have h: "''Knitting'' \<notin> name ` set (activity_table initial_db)"
    by code_simp
  show ?thesis
    using h unknown_activity_not_found [OF h, of "''emma@mergington.edu''"] by blast
qed

text \<open>
  Claim C5. When the activity named \<open>n\<close> exists and has no participant row with the
  email \<open>e\<close>, unregistering fails with status 400 and the store is left as it was.
\<close>

theorem unregister_absent_conflict:
  assumes "activity_named n s = Some a"
    and "e \<notin> email ` set (participants_of (a_id a) s)"
  shows "unregister_from_activity n e s =
           (Inl (HTTPException 400 ''Student is not signed up for this activity''), s) \<and>
         is_conflict (fst (unregister_from_activity n e s))"
proof -
  have "filter (\<lambda>p. activity_id p = a_id a \<and> email p = e) (participant_table s) = []"
    using assms(2) by (auto simp: filter_empty_conv participants_of_def)
  then show ?thesis
    using assms(1) by (simp add: unregister_cases is_conflict_def)
qed

theorem unregister_absent_conflict_witness:
  "activity_named ''Chess Club'' initial_db = Some chess_club \<and>
   ''nobody@mergington.edu'' \<notin> email ` set (participants_of (a_id chess_club) initial_db) \<and>
   unregister_from_activity ''Chess Club'' ''nobody@mergington.edu'' initial_db =
     (Inl (HTTPException 400 ''Student is not signed up for this activity''), initial_db)"
proof -
  have h1: "activity_named ''Chess Club'' initial_db = Some chess_club"
    by code_simp
  have h2: "''nobody@mergington.edu'' \<notin> email ` set (participants_of (a_id chess_club) initial_db)"
    by code_simp
  show ?thesis
    using h1 h2 unregister_absent_conflict [OF h1 h2] by blast
qed

text \<open>
  Claim C3. When the activity named \<open>n\<close> exists, \<open>e\<close> is not among its participants
  and their number equals \<open>max_participants\<close>, signing up fails with status 400 and the
  store is left as it was: no row is added.
\<close>

theorem signup_full_conflict:
  assumes "activity_named n s = Some a"
    and "e \<notin> email ` set (participants_of (a_id a) s)"
    and "int (length (participants_of (a_id a) s)) = max_participants a"
  shows "signup_for_activity n e s = (Inl (HTTPException 400 ''Activity is full''), s) \<and>
         is_conflict (fst (signup_for_activity n e s))"
  using assms by (simp add: signup_cases is_conflict_def)

theorem signup_full_conflict_witness:
  "activity_named ''Math Club'' math_club_full = Some math_club \<and>
   ''late@mergington.edu'' \<notin> email ` set (participants_of (a_id math_club) math_club_full) \<and>
   int (length (participants_of (a_id math_club) math_club_full)) = max_participants math_club \<and>
   signup_for_activity ''Math Club'' ''late@mergington.edu'' math_club_full =
     (Inl (HTTPException 400 ''Activity is full''), math_club_full)"
proof -
  have h1: "activity_named ''Math Club'' math_club_full = Some math_club"
    by code_simp
  have h2: "''late@mergington.edu'' \<notin> email ` set (participants_of (a_id math_club) math_club_full)"
    by code_simp
  have h3: "int (length (participants_of (a_id math_club) math_club_full)) = max_participants math_club"
    by code_simp
  show ?thesis
    using h1 h2 h3 signup_full_conflict [OF h1 h2 h3] by blast
qed

text \<open>
  Claim C2. When the activity named \<open>n\<close> exists and \<open>e\<close> is already among its
  participants, signing up fails with status 400 and the store is left as it was. A signup
  that succeeds is followed by this failure when repeated; and whatever the first of two
  equal signups answers, the second fails with status 400 and changes nothing.
\<close>

theorem signup_duplicate_conflict:
  assumes "activity_named n s = Some a"
  shows "(e \<in> email ` set (participants_of (a_id a) s) \<longrightarrow>
            signup_for_activity n e s =
              (Inl (HTTPException 400 ''Student is already signed up''), s)) \<and>
         (\<forall>m s1. signup_for_activity n e s = (Inr m, s1) \<longrightarrow>
            signup_for_activity n e s1 =
              (Inl (HTTPException 400 ''Student is already signed up''), s1)) \<and>
         is_conflict (fst (signup_for_activity n e (snd (signup_for_activity n e s)))) \<and>
         snd (signup_for_activity n e (snd (signup_for_activity n e s))) =
           snd (signup_for_activity n e s)"
proof -
  let ?s1 = "snd (signup_for_activity n e s)"
  have first: "e \<in> email ` set (participants_of (a_id a) s) \<Longrightarrow>
      signup_for_activity n e s = (Inl (HTTPException 400 ''Student is already signed up''), s)"
    using assms by (simp add: signup_cases)
  have named: "activity_named n (add_participant e (a_id a) s) = Some a"
    using assms by simp
  have again: "signup_for_activity n e (add_participant e (a_id a) s) =
      (Inl (HTTPException 400 ''Student is already signed up''), add_participant e (a_id a) s)"
    by (simp add: signup_cases [OF named] participants_of_add_participant)
  have second: "signup_for_activity n e s = (Inr m, s1) \<Longrightarrow>
      signup_for_activity n e s1 = (Inl (HTTPException 400 ''Student is already signed up''), s1)"
    for m s1
    using again by (auto simp: signup_cases [OF assms] split: if_splits)
  have twice: "is_conflict (fst (signup_for_activity n e ?s1)) \<and>
      snd (signup_for_activity n e ?s1) = ?s1"
    using again by (auto simp: signup_cases [OF assms] is_conflict_def)
  show ?thesis using first second twice by blast
qed

theorem signup_duplicate_conflict_witness:
  "activity_named ''Chess Club'' initial_db = Some chess_club \<and>
   ''michael@mergington.edu'' \<in> email ` set (participants_of (a_id chess_club) initial_db) \<and>
   signup_for_activity ''Chess Club'' ''michael@mergington.edu'' initial_db =
     (Inl (HTTPException 400 ''Student is already signed up''), initial_db) \<and>
   fst (signup_for_activity ''Chess Club'' ''newkid@mergington.edu'' initial_db) =
     Inr (Message ''Signed up newkid@mergington.edu for Chess Club'') \<and>
   signup_for_activity ''Chess Club'' ''newkid@mergington.edu''
       (snd (signup_for_activity ''Chess Club'' ''newkid@mergington.edu'' initial_db)) =
     (Inl (HTTPException 400 ''Student is already signed up''),
      snd (signup_for_activity ''Chess Club'' ''newkid@mergington.edu'' initial_db))"
proof -
  have h1: "activity_named ''Chess Club'' initial_db = Some chess_club"
    by code_simp
  have h2: "''michael@mergington.edu'' \<in> email ` set (participants_of (a_id chess_club) initial_db)"
    by code_simp
  have h3: "fst (signup_for_activity ''Chess Club'' ''newkid@mergington.edu'' initial_db) =
      Inr (Message ''Signed up newkid@mergington.edu for Chess Club'')"
    by code_simp
  then have h4: "signup_for_activity ''Chess Club'' ''newkid@mergington.edu'' initial_db =
      (Inr (Message ''Signed up newkid@mergington.edu for Chess Club''),
       snd (signup_for_activity ''Chess Club'' ''newkid@mergington.edu'' initial_db))"
    by (metis prod.collapse)
  show ?thesis
    using h1 h2 h3 h4
      signup_duplicate_conflict [OF h1, of "''michael@mergington.edu''"]
      signup_duplicate_conflict [OF h1, of "''newkid@mergington.edu''"]
    by blast
qed

section \<open>Successful requests\<close>

text \<open>
  The listing maps a name to the entry of the last activity row with that name; with
  distinct names that is the one row of the name.
\<close>

lemma map_of_fold_update:
  "map_of (fold (\<lambda>x. AList.update (k x) (f x)) xs acc) n =
     (case find (\<lambda>x. k x = n) (rev xs) of None \<Rightarrow> map_of acc n | Some x \<Rightarrow> Some (f x))"
  by (induction xs arbitrary: acc rule: rev_induct) (simp_all add: AList.update_conv')

lemma listing_lookup:
  assumes "distinct (map name (activity_table s))" and "a \<in> set (activity_table s)"
  shows "map_of (get_activities s) (name a) = Some (info_of s a)"
proof -
  have "distinct (map name (rev (activity_table s)))"
    using assms(1) by (simp add: rev_map [symmetric])
  then have "find (\<lambda>x. name x = name a) (rev (activity_table s)) = Some a"
    using assms(2) by (simp add: find_distinct_key)
  then show ?thesis
    by (simp add: get_activities_def map_of_fold_update)
qed

text \<open>
  Claim C1. When the activity named \<open>n\<close> exists, \<open>e\<close> is not among its participants
  and their number is below \<open>max_participants\<close>, signing up answers with the
  confirmation message alone and appends exactly one participant row, with a fresh key,
  the email \<open>e\<close> and the key of that activity; the activity has one participant more,
  and the listing of the new store shows the activity under \<open>n\<close> with \<open>e\<close> added at
  the end of its participant emails. Activity names are distinct, as the data model has it.
\<close>

theorem signup_success:
  assumes "activity_named n s = Some a"
    and "e \<notin> email ` set (participants_of (a_id a) s)"
    and "int (length (participants_of (a_id a) s)) < max_participants a"
    and "distinct (map name (activity_table s))"
  shows "fst (signup_for_activity n e s) = Inr (Message (''Signed up '' @ e @ '' for '' @ n)) \<and>
         participant_table (snd (signup_for_activity n e s)) =
           participant_table s @
             [\<lparr>p_id = new_id (map p_id (participant_table s)), email = e, activity_id = a_id a\<rparr>] \<and>
         new_id (map p_id (participant_table s)) \<notin> p_id ` set (participant_table s) \<and>
         activity_table (snd (signup_for_activity n e s)) = activity_table s \<and>
         length (participants_of (a_id a) (snd (signup_for_activity n e s))) =
           length (participants_of (a_id a) s) + 1 \<and>
         map_of (get_activities s) n =
           Some \<lparr>info_description = description a, info_schedule = schedule a,
                 info_max_participants = max_participants a,
                 info_participants = map email (participants_of (a_id a) s)\<rparr> \<and>
         map_of (get_activities (snd (signup_for_activity n e s))) n =
           Some \<lparr>info_description = description a, info_schedule = schedule a,
                 info_max_participants = max_participants a,
                 info_participants = map email (participants_of (a_id a) s) @ [e]\<rparr>"
proof -
  let ?s' = "add_participant e (a_id a) s"
  have res: "signup_for_activity n e s = (Inr (Message (''Signed up '' @ e @ '' for '' @ n)), ?s')"
    using assms(1-3) by (simp add: signup_cases)
  have mem: "a \<in> set (activity_table s)" and nm: "name a = n"
    using activity_named_SomeD [OF assms(1)] by simp_all
  have fresh: "new_id (map p_id (participant_table s)) \<notin> p_id ` set (participant_table s)"
    using new_id_fresh [of "map p_id (participant_table s)"] by simp
  have before: "map_of (get_activities s) n = Some (info_of s a)"
    using listing_lookup [OF assms(4) mem] nm by simp
  have after: "map_of (get_activities ?s') n = Some (info_of ?s' a)"
    using listing_lookup [of ?s' a] assms(4) mem nm by simp
  show ?thesis
    using fresh before after
    by (simp add: res info_of_def participants_of_add_participant) (simp add: add_participant_def)
qed

theorem signup_success_witness:
  "activity_named ''Chess Club'' initial_db = Some chess_club \<and>
   ''newkid@mergington.edu'' \<notin> email ` set (participants_of (a_id chess_club) initial_db) \<and>
   int (length (participants_of (a_id chess_club) initial_db)) < max_participants chess_club \<and>
   distinct (map name (activity_table initial_db)) \<and>
   fst (signup_for_activity ''Chess Club'' ''newkid@mergington.edu'' initial_db) =
     Inr (Message ''Signed up newkid@mergington.edu for Chess Club'') \<and>
   length (participants_of (a_id chess_club)
       (snd (signup_for_activity ''Chess Club'' ''newkid@mergington.edu'' initial_db))) = 3 \<and>
   map_of (get_activities (snd (signup_for_activity ''Chess Club'' ''newkid@mergington.edu'' initial_db)))
       ''Chess Club'' =
     Some \<lparr>info_description = ''Learn strategies and compete in chess tournaments'',
           info_schedule = ''Fridays, 3:30 PM - 5:00 PM'', info_max_participants = 12,
           info_participants =
             [''michael@mergington.edu'', ''daniel@mergington.edu'', ''newkid@mergington.edu'']\<rparr>"
proof -
  have h1: "activity_named ''Chess Club'' initial_db = Some chess_club"
    by code_simp
  have h2: "''newkid@mergington.edu'' \<notin> email ` set (participants_of (a_id chess_club) initial_db)"
    by code_simp
  have h3: "int (length (participants_of (a_id chess_club) initial_db)) < max_participants chess_club"
    by code_simp
  have h4: "distinct (map name (activity_table initial_db))"
    by code_simp
  have roster: "participants_of (a_id chess_club) initial_db =
      [\<lparr>p_id = 1, email = ''michael@mergington.edu'', activity_id = 1\<rparr>,
       \<lparr>p_id = 2, email = ''daniel@mergington.edu'', activity_id = 1\<rparr>]"
    by code_simp
  show ?thesis
    using h1 h2 h3 h4 signup_success [OF h1 h2 h3 h4]
    by (simp add: roster) (simp add: chess_club_def)
qed

text \<open>
  Claim C4. When the activity named \<open>n\<close> exists and exactly one participant row \<open>p\<close>
  has its key and the email \<open>e\<close>, unregistering answers with the confirmation message
  and removes the row \<open>p\<close> and no other: every other row stays, in place; the activity
  has one participant less and \<open>e\<close> is no longer among them. Participant keys are
  distinct, being primary keys.
\<close>

theorem unregister_success:
  assumes "activity_named n s = Some a"
    and "filter (\<lambda>q. activity_id q = a_id a \<and> email q = e) (participant_table s) = [p]"
    and "distinct (map p_id (participant_table s))"
  shows "fst (unregister_from_activity n e s) =
           Inr (Message (''Unregistered '' @ e @ '' from '' @ n)) \<and>
         participant_table (snd (unregister_from_activity n e s)) =
           remove1 p (participant_table s) \<and>
         set (participant_table (snd (unregister_from_activity n e s))) =
           set (participant_table s) - {p} \<and>
         activity_table (snd (unregister_from_activity n e s)) = activity_table s \<and>
         length (participants_of (a_id a) (snd (unregister_from_activity n e s))) + 1 =
           length (participants_of (a_id a) s) \<and>
         e \<notin> email ` set (participants_of (a_id a) (snd (unregister_from_activity n e s)))"
proof -
  let ?P = "\<lambda>q. activity_id q = a_id a \<and> email q = e"
  have "p \<in> set (filter ?P (participant_table s))"
    using assms(2) by simp
  then have mem: "p \<in> set (participant_table s)" and pa: "activity_id p = a_id a"
    by simp_all
  have res: "unregister_from_activity n e s =
      (Inr (Message (''Unregistered '' @ e @ '' from '' @ n)), delete_participant p s)"
    using assms(1,2) by (simp add: unregister_cases)
  have tbl: "participant_table (delete_participant p s) = remove1 p (participant_table s)"
    using assms(3) mem by (simp add: delete_participant_def filter_key_remove1)
  have dist: "distinct (participant_table s)"
    using assms(3) by (rule distinct_map [THEN iffD1, THEN conjunct1])
  have roster: "participants_of (a_id a) (delete_participant p s) =
      remove1 p (participants_of (a_id a) s)"
    by (simp add: participants_of_def tbl filter_remove1)
  have in_roster: "p \<in> set (participants_of (a_id a) s)"
    using mem pa by (simp add: participants_of_def)
  then have pos: "0 < length (participants_of (a_id a) s)"
    by (cases "participants_of (a_id a) s") auto
  have "filter ?P (remove1 p (participant_table s)) = []"
    using assms(2) by (simp add: filter_remove1)
  then have gone: "e \<notin> email ` set (participants_of (a_id a) (delete_participant p s))"
    by (auto simp: participants_of_def tbl filter_empty_conv)
  show ?thesis
    using dist gone pos in_roster by (simp add: res tbl roster length_remove1)
qed

theorem unregister_success_witness:
  "activity_named ''Chess Club'' initial_db = Some chess_club \<and>
   filter (\<lambda>q. activity_id q = a_id chess_club \<and> email q = ''daniel@mergington.edu'')
       (participant_table initial_db) =
     [\<lparr>p_id = 2, email = ''daniel@mergington.edu'', activity_id = 1\<rparr>] \<and>
   distinct (map p_id (participant_table initial_db)) \<and>
   fst (unregister_from_activity ''Chess Club'' ''daniel@mergington.edu'' initial_db) =
     Inr (Message ''Unregistered daniel@mergington.edu from Chess Club'') \<and>
   participant_table (snd (unregister_from_activity ''Chess Club'' ''daniel@mergington.edu'' initial_db)) =
     remove1 \<lparr>p_id = 2, email = ''daniel@mergington.edu'', activity_id = 1\<rparr>
       (participant_table initial_db) \<and>
   length (participants_of (a_id chess_club)
       (snd (unregister_from_activity ''Chess Club'' ''daniel@mergington.edu'' initial_db))) + 1 =
     length (participants_of (a_id chess_club) initial_db)"
proof -
  have h1: "activity_named ''Chess Club'' initial_db = Some chess_club"
    by code_simp
  have h2: "filter (\<lambda>q. activity_id q = a_id chess_club \<and> email q = ''daniel@mergington.edu'')
       (participant_table initial_db) =
     [\<lparr>p_id = 2, email = ''daniel@mergington.edu'', activity_id = 1\<rparr>]"
    by code_simp
  have h3: "distinct (map p_id (participant_table initial_db))"
    by code_simp
  show ?thesis
    using h1 h2 h3 unregister_success [OF h1 h2 h3] by simp
qed

section \<open>What a request leaves alone\<close>

text \<open>
  Claim C10. Signing up and unregistering, whether they succeed or fail, leave the
  activity table as it was, and leave the participant rows of every activity whose name
  is not \<open>n\<close> as they were. Activity keys and participant keys are distinct, being
  primary keys.
\<close>

theorem signup_unregister_frame:
  assumes "distinct (map a_id (activity_table s))"
    and "distinct (map p_id (participant_table s))"
  shows "activity_table (snd (signup_for_activity n e s)) = activity_table s \<and>
         activity_table (snd (unregister_from_activity n e s)) = activity_table s \<and>
         (\<forall>b\<in>set (activity_table s). name b \<noteq> n \<longrightarrow>
            participants_of (a_id b) (snd (signup_for_activity n e s)) = participants_of (a_id b) s \<and>
            participants_of (a_id b) (snd (unregister_from_activity n e s)) = participants_of (a_id b) s)"
proof (cases "activity_named n s")
  case None
  then show ?thesis
    by (simp add: signup_for_activity_def unregister_from_activity_def)
next
  case (Some a)
  have mem: "a \<in> set (activity_table s)" and nm: "name a = n"
    using activity_named_SomeD [OF Some] by simp_all
  have other: "a_id b \<noteq> a_id a" if "b \<in> set (activity_table s)" "name b \<noteq> n" for b
    using that mem nm assms(1) by (auto simp: distinct_map dest: inj_onD)
  have acts: "activity_table (snd (signup_for_activity n e s)) = activity_table s"
    "activity_table (snd (unregister_from_activity n e s)) = activity_table s"
    by (simp_all add: signup_cases [OF Some] unregister_cases [OF Some] split: list.splits)
  have sign: "participants_of j (snd (signup_for_activity n e s)) = participants_of j s"
    if "j \<noteq> a_id a" for j
    using that by (simp add: signup_cases [OF Some] participants_of_add_participant)
  have unreg: "participants_of j (snd (unregister_from_activity n e s)) = participants_of j s"
    if "j \<noteq> a_id a" for j
  proof (cases "filter (\<lambda>p. activity_id p = a_id a \<and> email p = e) (participant_table s)")
    case Nil
    then show ?thesis by (simp add: unregister_cases [OF Some])
  next
    case (Cons p ps)
    then have "p \<in> set (filter (\<lambda>p. activity_id p = a_id a \<and> email p = e) (participant_table s))"
      by simp
    then have pm: "p \<in> set (participant_table s)" and pa: "activity_id p = a_id a"
      by simp_all
    have "participant_table (delete_participant p s) = remove1 p (participant_table s)"
      using assms(2) pm by (simp add: delete_participant_def filter_key_remove1)
    then have "participants_of j (delete_participant p s) = remove1 p (participants_of j s)"
      by (simp add: participants_of_def filter_remove1)
    moreover have "p \<notin> set (participants_of j s)"
      using that pa by (simp add: participants_of_def)
    ultimately show ?thesis
      using Cons by (simp add: unregister_cases [OF Some] remove1_idem)
  qed
  show ?thesis using acts sign unreg other by blast
qed

theorem signup_unregister_frame_witness:
  "distinct (map a_id (activity_table initial_db)) \<and>
   distinct (map p_id (participant_table initial_db)) \<and>
   math_club \<in> set (activity_table initial_db) \<and> name math_club \<noteq> ''Chess Club'' \<and>
   activity_table (snd (signup_for_activity ''Chess Club'' ''newkid@mergington.edu'' initial_db)) =
     activity_table initial_db \<and>
   participants_of (a_id math_club)
       (snd (signup_for_activity ''Chess Club'' ''newkid@mergington.edu'' initial_db)) =
     participants_of (a_id math_club) initial_db \<and>
   participants_of (a_id math_club)
       (snd (unregister_from_activity ''Chess Club'' ''daniel@mergington.edu'' initial_db)) =
     participants_of (a_id math_club) initial_db"
proof -
  have h1: "distinct (map a_id (activity_table initial_db))"
    by code_simp
  have h2: "distinct (map p_id (participant_table initial_db))"
    by code_simp
  have h3: "math_club \<in> set (activity_table initial_db)"
    by code_simp
  have h4: "name math_club \<noteq> ''Chess Club''"
    by code_simp
  show ?thesis
    using h1 h2 h3 h4
      signup_unregister_frame [OF h1 h2, of "''Chess Club''" "''newkid@mergington.edu''"]
      signup_unregister_frame [OF h1 h2, of "''Chess Club''" "''daniel@mergington.edu''"]
    by blast
qed

section \<open>Seeding\<close>

lemma listing_seeded:
  "get_activities \<lparr>activity_table = seeded_activities, participant_table = seeded_participants\<rparr>
     = seeded_listing"
  by (simp add: get_activities_def info_of_def participants_of_def seeded_activities_def
      seeded_participants_def seeded_listing_def)

lemma no_activity_no_participant:
  assumes "activity_table s = []" and "references_ok s"
  shows "s = empty_db"
proof -
  have "participant_table s = []"
    using assms by (cases "participant_table s") (simp_all add: references_ok_def)
  with assms(1) show ?thesis by (simp add: empty_db_def)
qed

text \<open>
  Claim C7. Seeding a store with no activity (and, with it, no participant row, since a
  participant refers to an activity) yields the nine activities of \<open>samples\<close> with two
  participants each, and the listing right after is exactly the nine names in that order,
  each with its description, schedule, capacity and two emails. Seeding a store that has
  an activity changes nothing.
\<close>

theorem seed_data_populates:
  "(activity_table s = [] \<and> references_ok s \<longrightarrow>
      seed_data s = \<lparr>activity_table = seeded_activities, participant_table = seeded_participants\<rparr> \<and>
      get_activities (seed_data s) = seeded_listing \<and>
      length (get_activities (seed_data s)) = 9 \<and>
      (\<forall>(n, info)\<in>set (get_activities (seed_data s)). length (info_participants info) = 2)) \<and>
   (activity_table s \<noteq> [] \<longrightarrow> seed_data s = s)"
proof -
  have two: "\<forall>(n, info)\<in>set seeded_listing. length (info_participants info) = 2"
    by (simp add: seeded_listing_def)
  have nine: "length seeded_listing = 9"
    by (simp add: seeded_listing_def)
  have "seed_data s = s" if "activity_table s \<noteq> []"
    using that by (simp add: seed_data_def)
  moreover have "seed_data s = \<lparr>activity_table = seeded_activities, participant_table = seeded_participants\<rparr>"
    if "activity_table s = []" "references_ok s"
    using no_activity_no_participant [OF that] by (simp add: seed_empty)
  ultimately show ?thesis
    using two nine by (simp add: listing_seeded)
qed

theorem seed_data_populates_witness:
  "activity_table empty_db = [] \<and> references_ok empty_db \<and>
   get_activities (seed_data empty_db) = seeded_listing \<and>
   activity_table initial_db \<noteq> [] \<and> seed_data initial_db = initial_db"
proof -
  have a: "activity_table empty_db = [] \<and> references_ok empty_db"
    by (simp add: empty_db_def references_ok_def)
  have b: "activity_table initial_db \<noteq> []"
    by (simp add: initial_db_eq seeded_activities_def)
  show ?thesis
    using a b seed_data_populates [of empty_db] seed_data_populates [of initial_db] by blast
qed

section \<open>Invariants of every run\<close>

text \<open>
  A run started on the seeded store never touches the activity table, and keeps the
  constraints of the data model: keys and names stay distinct, references stay valid.
\<close>

lemma run_Nil [simp]: "run [] s = s"
  by (simp add: run_def)

lemma run_snoc [simp]: "run (rs @ [r]) s = handle r (run rs s)"
  by (simp add: run_def)

lemma run_activity_table [simp]: "activity_table (run rs s) = activity_table s"
  by (induction rs rule: rev_induct) simp_all

lemma well_formed_add_participant:
  assumes "well_formed s" and "i \<in> a_id ` set (activity_table s)"
  shows "well_formed (add_participant e i s)"
  using assms new_id_fresh [of "map p_id (participant_table s)"]
  by (simp add: well_formed_def references_ok_def add_participant_def)

lemma well_formed_delete_participant:
  assumes "well_formed s"
  shows "well_formed (delete_participant p s)"
  using assms
  by (auto simp: well_formed_def references_ok_def delete_participant_def distinct_map_filter
      list_all_iff)

lemma well_formed_signup:
  assumes "well_formed s"
  shows "well_formed (snd (signup_for_activity n e s))"
proof (cases "activity_named n s")
  case None
  with assms show ?thesis by (simp add: signup_for_activity_def)
next
  case (Some a)
  then have "a_id a \<in> a_id ` set (activity_table s)"
    using activity_named_SomeD by blast
  with assms show ?thesis
    by (simp add: signup_cases [OF Some] well_formed_add_participant)
qed

lemma well_formed_unregister:
  assumes "well_formed s"
  shows "well_formed (snd (unregister_from_activity n e s))"
proof (cases "activity_named n s")
  case None
  with assms show ?thesis by (simp add: unregister_from_activity_def)
next
  case (Some a)
  with assms show ?thesis
    by (simp add: unregister_cases [OF Some] well_formed_delete_participant split: list.splits)
qed

lemma well_formed_handle: "well_formed s \<Longrightarrow> well_formed (handle r s)"
  by (cases r) (simp_all add: well_formed_signup well_formed_unregister)

lemma well_formed_initial: "well_formed initial_db"
  by code_simp

lemma well_formed_run: "well_formed (run rs initial_db)"
  by (induction rs rule: rev_induct) (simp_all add: well_formed_handle well_formed_initial)

lemma pair_unique_signup:
  assumes "distinct (map (\<lambda>p. (activity_id p, email p)) (participant_table s))"
  shows "distinct (map (\<lambda>p. (activity_id p, email p))
           (participant_table (snd (signup_for_activity n e s))))"
proof (cases "activity_named n s")
  case None
  with assms show ?thesis by (simp add: signup_for_activity_def)
next
  case (Some a)
  have "(a_id a, e) \<notin> (\<lambda>p. (activity_id p, email p)) ` set (participant_table s)"
    if "e \<notin> email ` set (participants_of (a_id a) s)"
    using that by (auto simp: participants_of_def)
  with assms show ?thesis
    by (simp add: signup_cases [OF Some] add_participant_def)
qed

lemma pair_unique_unregister:
  assumes "distinct (map (\<lambda>p. (activity_id p, email p)) (participant_table s))"
  shows "distinct (map (\<lambda>p. (activity_id p, email p))
           (participant_table (snd (unregister_from_activity n e s))))"
proof (cases "activity_named n s")
  case None
  with assms show ?thesis by (simp add: unregister_from_activity_def)
next
  case (Some a)
  with assms show ?thesis
    by (simp add: unregister_cases [OF Some] delete_participant_def distinct_map_filter
        split: list.splits)
qed

text \<open>
  Claim C8. After any sequence of list, signup and unregister requests on the seeded
  store, no two participant rows have the same activity key and the same email.
\<close>

theorem run_pair_unique:
  "distinct (map (\<lambda>p. (activity_id p, email p)) (participant_table (run rs initial_db)))"
proof (induction rs rule: rev_induct)
  case Nil
  show ?case by (simp add: initial_db_eq seeded_participants_def)
next
  case (snoc r rs)
  then show ?case
    by (cases r) (simp_all add: pair_unique_signup pair_unique_unregister)
qed

theorem run_pair_unique_witness:
  "distinct (map (\<lambda>p. (activity_id p, email p))
     (participant_table
       (run [Signup ''Chess Club'' ''newkid@mergington.edu'',
             Unregister ''Chess Club'' ''daniel@mergington.edu'',
             Signup ''Chess Club'' ''newkid@mergington.edu'', List_activities] initial_db))) \<and>
   map (\<lambda>p. (activity_id p, email p))
     (participants_of 1
       (run [Signup ''Chess Club'' ''newkid@mergington.edu'',
             Unregister ''Chess Club'' ''daniel@mergington.edu'',
             Signup ''Chess Club'' ''newkid@mergington.edu'', List_activities] initial_db)) =
     [(1, ''michael@mergington.edu''), (1, ''newkid@mergington.edu'')]"
proof -
  have h: "map (\<lambda>p. (activity_id p, email p))
     (participants_of 1
       (run [Signup ''Chess Club'' ''newkid@mergington.edu'',
             Unregister ''Chess Club'' ''daniel@mergington.edu'',
             Signup ''Chess Club'' ''newkid@mergington.edu'', List_activities] initial_db)) =
     [(1, ''michael@mergington.edu''), (1, ''newkid@mergington.edu'')]"
    by code_simp
  show ?thesis
    using h run_pair_unique [of "[Signup ''Chess Club'' ''newkid@mergington.edu'',
             Unregister ''Chess Club'' ''daniel@mergington.edu'',
             Signup ''Chess Club'' ''newkid@mergington.edu'', List_activities]"]
    by blast
qed

lemma capacity_signup:
  assumes "distinct (map a_id (activity_table s))"
    and "\<forall>a\<in>set (activity_table s). int (length (participants_of (a_id a) s)) \<le> max_participants a"
    and "b \<in> set (activity_table s)"
  shows "int (length (participants_of (a_id b) (snd (signup_for_activity n e s)))) \<le> max_participants b"
proof (cases "activity_named n s")
  case None
  with assms show ?thesis by (simp add: signup_for_activity_def)
next
  case (Some a)
  have mem: "a \<in> set (activity_table s)"
    using activity_named_SomeD [OF Some] by simp
  have same: "b = a" if "a_id b = a_id a"
    using that mem assms(1,3) by (auto simp: distinct_map dest: inj_onD)
  show ?thesis
    using assms(2,3) same
    by (auto simp: signup_cases [OF Some] participants_of_add_participant)
qed

lemma capacity_unregister:
  assumes "\<forall>a\<in>set (activity_table s). int (length (participants_of (a_id a) s)) \<le> max_participants a"
    and "b \<in> set (activity_table s)"
  shows "int (length (participants_of (a_id b) (snd (unregister_from_activity n e s)))) \<le> max_participants b"
proof -
  have "length (participants_of j (delete_participant p s)) \<le> length (participants_of j s)" for j p
  proof -
    have "participants_of j (delete_participant p s) =
        filter (\<lambda>q. p_id q \<noteq> p_id p) (participants_of j s)"
      by (auto simp: participants_of_def delete_participant_def intro: filter_cong)
    then show ?thesis by simp
  qed
  then have "length (participants_of (a_id b) (snd (unregister_from_activity n e s)))
      \<le> length (participants_of (a_id b) s)"
    by (cases "activity_named n s")
      (simp_all add: unregister_from_activity_def split: option.splits)
  with assms show ?thesis by fastforce
qed

text \<open>
  Claim C9. After any sequence of list, signup and unregister requests on the seeded
  store, every activity has at most \<open>max_participants\<close> participants.
\<close>

theorem run_within_capacity:
  "\<forall>a\<in>set (activity_table (run rs initial_db)).
     int (length (participants_of (a_id a) (run rs initial_db))) \<le> max_participants a"
proof (induction rs rule: rev_induct)
  case Nil
  show ?case
    by (simp add: initial_db_eq seeded_activities_def seeded_participants_def participants_of_def)
next
  case (snoc r rs)
  let ?s = "run rs initial_db"
  have ids: "distinct (map a_id (activity_table ?s))"
    using well_formed_run [of rs] by (simp add: well_formed_def)
  show ?case
  proof (cases r)
    case List_activities
    with snoc.IH show ?thesis by simp
  next
    case (Signup n e)
    with capacity_signup [OF ids snoc.IH] show ?thesis by simp
  next
    case (Unregister n e)
    with capacity_unregister [OF snoc.IH] show ?thesis by simp
  qed
qed

theorem run_within_capacity_witness:
  "math_club \<in> set (activity_table math_club_full) \<and>
   int (length (participants_of (a_id math_club) math_club_full)) = max_participants math_club \<and>
   math_club \<in> set (activity_table (handle (Signup ''Math Club'' ''late@mergington.edu'') math_club_full)) \<and>
   int (length (participants_of (a_id math_club)
       (handle (Signup ''Math Club'' ''late@mergington.edu'') math_club_full))) \<le> max_participants math_club"
proof -
  have h1: "math_club \<in> set (activity_table math_club_full)"
    by code_simp
  have h2: "int (length (participants_of (a_id math_club) math_club_full)) = max_participants math_club"
    by code_simp
  have r: "handle (Signup ''Math Club'' ''late@mergington.edu'') math_club_full =
     run [Signup ''Math Club'' ''s1@mergington.edu'', Signup ''Math Club'' ''s2@mergington.edu'',
          Signup ''Math Club'' ''s3@mergington.edu'', Signup ''Math Club'' ''s4@mergington.edu'',
          Signup ''Math Club'' ''s5@mergington.edu'', Signup ''Math Club'' ''s6@mergington.edu'',
          Signup ''Math Club'' ''s7@mergington.edu'', Signup ''Math Club'' ''s8@mergington.edu'',
          Signup ''Math Club'' ''late@mergington.edu'']
       initial_db"
    unfolding math_club_full_def run_def by simp
  have h3: "math_club \<in> set (activity_table (handle (Signup ''Math Club'' ''late@mergington.edu'') math_club_full))"
    using h1 by simp
  show ?thesis
    using h1 h2 h3
      run_within_capacity [of "[Signup ''Math Club'' ''s1@mergington.edu'', Signup ''Math Club'' ''s2@mergington.edu'',
          Signup ''Math Club'' ''s3@mergington.edu'', Signup ''Math Club'' ''s4@mergington.edu'',
          Signup ''Math Club'' ''s5@mergington.edu'', Signup ''Math Club'' ''s6@mergington.edu'',
          Signup ''Math Club'' ''s7@mergington.edu'', Signup ''Math Club'' ''s8@mergington.edu'',
          Signup ''Math Club'' ''late@mergington.edu'']"]
    unfolding r [symmetric] by blast
qed

end
